theory Spec2Isabelle
  imports Main
begin

section \<open>The MiFlora worker of bluetooth2mqtt (workers/miflora.py)\<close>

text \<open>
  The worker polls a set of MiFlora plant sensors. Per poll it reads five parameters of
  each device, publishes them, and keeps a count of failed polls from which it derives
  online and offline availability messages. The definitions below follow
  \<^verbatim>\<open>src/workers/miflora.py\<close> function by function.
\<close>

subsection \<open>Exceptions and the outcome of a call\<close>

text \<open>
  The exception classes the module handles or can raise. \<open>OtherException\<close> stands for
  any class a poller may raise that is none of the named ones.
\<close>

datatype exn =
    BluetoothBackendException
  | DeviceTimeoutError
  | NameError
  | OtherException string

text \<open>
  A call of the sensor library returns a value, raises, or does not return before the
  deadline of the poll runs out.
\<close>

datatype 'a outcome = Returns 'a | Raises exn | NeverReturns

definition and_then :: "'a outcome \<Rightarrow> ('a \<Rightarrow> 'b outcome) \<Rightarrow> 'b outcome" where
  "and_then m f = (case m of Returns x \<Rightarrow> f x | Raises e \<Rightarrow> Raises e | NeverReturns \<Rightarrow> NeverReturns)"

subsection \<open>Module constants and the module namespace\<close>

definition ATTR_BATTERY :: string where
  "ATTR_BATTERY = ''battery''"

definition ATTR_LOW_BATTERY :: string where
  "ATTR_LOW_BATTERY = ''low_battery''"

definition monitoredAttrs :: "string list" where
  "monitoredAttrs = [''temperature'', ''moisture'', ''light'', ''conductivity'', ATTR_BATTERY]"

text \<open>
  The names the module binds at its top level, in the order of lines 1 to 23: the
  imports, the constants and the class. A name used in a function body that is neither
  local nor bound here (nor a builtin, which \<open>json\<close> is not) raises NameError when the
  line runs.
\<close>

definition module_globals :: "string list" where
  "module_globals =
     [''DEFAULT_PER_DEVICE_TIMEOUT'', ''DEFAULT_ERRORS_TO_OFFLINE_COUNT'',
      ''DeviceTimeoutError'', ''MqttMessage'', ''MqttConfigMessage'', ''timeout'',
      ''BaseWorker'', ''retry'', ''logger'', ''REQUIREMENTS'', ''ATTR_BATTERY'',
      ''ATTR_LOW_BATTERY'', ''monitoredAttrs'', ''_LOGGER'', ''MifloraWorker'']"

definition resolve :: "string \<Rightarrow> exn option" where
  "resolve name = (if name \<in> set module_globals then None else Some NameError)"

subsection \<open>Messages\<close>

text \<open>
  The topic and identifier helpers (\<open>format_topic\<close>, \<open>format_prefixed_topic\<close>,
  \<open>format_discovery_topic\<close>, \<open>format_discovery_id\<close>, \<open>format_discovery_name\<close>) are
  methods of BaseWorker, which is not among the sources. A call is kept as the call it
  is: the helper and its arguments (the address first where the helper takes one).
\<close>

datatype formatted =
    format_topic "string list"
  | format_prefixed_topic "string list"
  | format_discovery_topic string "string list"
  | format_discovery_id string "string list"
  | format_discovery_name "string list"

text \<open>
  A payload is a literal string or \<open>json.dumps\<close> of the readings, kept as the mapping it
  serialises (keys in insertion order).
\<close>

datatype 'v payload = Text string | json_dumps "(string \<times> 'v) list"

datatype 'v mqtt_message = MqttMessage (topic: formatted) (payload: "'v payload")

subsection \<open>The worker\<close>

text \<open>
  Log lines: the format string and its arguments, as passed to the logger.
\<close>

datatype log_arg = Str string | Num int | ReprSelf

datatype log_entry =
    LogInfo string "log_arg list"
  | LogDebug string "log_arg list"
  | LogException string "log_arg list"

text \<open>
  The attributes of a MifloraWorker that the polling code reads or writes (lines 24 to
  27 and BaseWorker's \<open>update_retries\<close>). \<open>error_count\<close> and \<open>is_online\<close> are attributes
  of the worker object: there is one of each per worker, whatever the number of devices.
  \<open>is_online\<close> is None, True or False. \<open>logged\<close> collects what the worker wrote to the
  module's logger. The length of the deadline, \<open>per_device_timeout\<close>, is a duration of
  wall-clock time; it appears here only through the outcome \<open>NeverReturns\<close>.
\<close>

record worker =
  errors_to_offline :: int
  update_retries :: nat
  error_count :: int
  is_online :: "bool option"
  logged :: "log_entry list"

definition log_line :: "log_entry \<Rightarrow> worker \<Rightarrow> worker" where
  "log_line entry w = w\<lparr>logged := logged w @ [entry]\<rparr>"

text \<open>The log lines of lines 110, 119, 122, 129 to 137 and 140 to 147.\<close>

definition error_count_line :: "string \<Rightarrow> int \<Rightarrow> log_entry" where
  "error_count_line name n = LogInfo ''  Error count for %s is %d'' [Str name, Num n]"

definition updating_devices_line :: "nat \<Rightarrow> log_entry" where
  "updating_devices_line n = LogInfo ''Updating %d %s devices'' [Num (int n), ReprSelf]"

definition updating_device_line :: "string \<Rightarrow> string \<Rightarrow> log_entry" where
  "updating_device_line name mac =
     LogDebug ''Updating %s device '%s' (%s)'' [ReprSelf, Str name, Str mac]"

definition error_during_update_line :: "string \<Rightarrow> string \<Rightarrow> log_entry" where
  "error_during_update_line name mac =
     LogException ''Error during update of %s device '%s' (%s): %s''
       [ReprSelf, Str name, Str mac, Str ''BluetoothBackendException'']"

definition time_out_during_update_line :: "string \<Rightarrow> string \<Rightarrow> log_entry" where
  "time_out_during_update_line name mac =
     LogException ''Time out during update of %s device '%s' (%s)''
       [ReprSelf, Str name, Str mac]"

text \<open>
  The poller of a device during one attempt to read it: what \<open>clear_cache()\<close> and
  \<open>parameter_value(attr)\<close> do when called.
\<close>

record 'v poller =
  clear_cache :: "unit outcome"
  parameter_value :: "string \<Rightarrow> 'v outcome"

text \<open>
  A configured device during one poll cycle: its name, its address, and its poller at
  the first, second, ... attempt of the cycle.
\<close>

type_synonym 'v device = "string \<times> string \<times> (nat \<Rightarrow> 'v poller)"

subsection \<open>avail\_offline (lines 108 to 116)\<close>

definition avail_offline :: "worker \<Rightarrow> string \<Rightarrow> 'v mqtt_message list \<times> worker" where
  "avail_offline w name =
     (let w1 = w\<lparr>error_count := error_count w + 1\<rparr>;
          w2 = log_line (error_count_line name (error_count w1)) w1
      in if errors_to_offline w2 \<le> error_count w2 \<and> is_online w2 \<noteq> Some False
         then ([MqttMessage (format_topic [name, ''availability'']) (Text ''offline'')],
               w2\<lparr>is_online := Some False\<rparr>)
         else ([], w2))"

subsection \<open>update\_device\_state (lines 150 to 165)\<close>

text \<open>
  \<open>read_data\<close> is lines 151 to 159: the cache is cleared and the five parameters are
  read in the order of the dictionary display. Nothing is written to the worker before
  line 161, so a call that raises or does not return leaves the worker as it was. Line
  160 evaluates \<open>self.format_topic(name)\<close> and then looks up the name \<open>json\<close>.
\<close>

definition read_data :: "'v poller \<Rightarrow> (string \<times> 'v) list outcome" where
  "read_data poller =
     and_then (clear_cache poller) (\<lambda>_.
     and_then (parameter_value poller ''temperature'') (\<lambda>t.
     and_then (parameter_value poller ''moisture'') (\<lambda>m.
     and_then (parameter_value poller ''light'') (\<lambda>l.
     and_then (parameter_value poller ''conductivity'') (\<lambda>c.
     and_then (parameter_value poller ATTR_BATTERY) (\<lambda>b.
       Returns [(''temperature'', t), (''moisture'', m), (''light'', l),
                (''conductivity'', c), (''battery'', b)]))))))"

definition update_device_state ::
  "worker \<Rightarrow> string \<Rightarrow> 'v poller \<Rightarrow> 'v mqtt_message list outcome \<times> worker" where
  "update_device_state w name poller =
     (case read_data poller of
        Raises e \<Rightarrow> (Raises e, w)
      | NeverReturns \<Rightarrow> (NeverReturns, w)
      | Returns data \<Rightarrow>
          (case resolve ''json'' of
             Some e \<Rightarrow> (Raises e, w)
           | None \<Rightarrow>
               (let ret = [MqttMessage (format_topic [name]) (json_dumps data)] in
                if errors_to_offline w \<le> error_count w \<or> is_online w \<noteq> Some True
                then (Returns (ret @ [MqttMessage (format_topic [name, ''availability''])
                                        (Text ''online'')]),
                      w\<lparr>is_online := Some True, error_count := 0\<rparr>)
                else (Returns ret, w\<lparr>error_count := 0\<rparr>))))"

subsection \<open>The retry decorator and the deadline\<close>

text \<open>
  Modelled from the spec: \<open>retry\<close> is defined in workers/base.py, which is not among the
  sources. Section 4.2 of the specification: the operation is invoked up to
  \<open>retries + 1\<close> times; only a failure of the given class triggers a retry, at once; any
  other failure propagates immediately; when the retries are used up the last failure
  propagates unchanged. A call that does not return never hands control back, so it is
  not retried. \<open>func k\<close> is the \<open>k\<close>-th invocation of the operation.
\<close>

fun retry ::
  "nat \<Rightarrow> exn \<Rightarrow> (nat \<Rightarrow> worker \<Rightarrow> 'a outcome \<times> worker) \<Rightarrow> nat \<Rightarrow> worker \<Rightarrow> 'a outcome \<times> worker"
where
  "retry 0 exception_type func k w = func k w"
| "retry (Suc retries) exception_type func k w =
     (case func k w of
        (Raises e, w') \<Rightarrow>
          if e = exception_type then retry retries exception_type func (Suc k) w'
          else (Raises e, w')
      | (r, w') \<Rightarrow> (r, w'))"

text \<open>
  Modelled from the spec: \<open>timeout\<close> is the context manager of the interruptingcow
  library. Section 4.3 of the specification: when the deadline passes before the guarded
  operation is done, the operation is abandoned and the given exception is raised in its
  place; otherwise the operation's own result, value or exception, stands.
\<close>

definition timeout :: "exn \<Rightarrow> 'a outcome \<times> worker \<Rightarrow> (exn + 'a) \<times> worker" where
  "timeout exception r =
     (case r of
        (Returns x, w) \<Rightarrow> (Inr x, w)
      | (Raises e, w) \<Rightarrow> (Inl e, w)
      | (NeverReturns, w) \<Rightarrow> (Inl exception, w))"

subsection \<open>status\_update (lines 118 to 148)\<close>

text \<open>
  \<open>guarded_update\<close> is the body of the \<open>with\<close> statement of lines 126 and 127: the
  retried call of \<open>update_device_state\<close> under the deadline. \<open>status_update\<close> is a
  generator: it yields one list of messages per device and ends
  either by running off the device list (\<open>None\<close>) or with an exception that no handler
  caught (\<open>Some e\<close>). The result is what it yielded up to there, how it ended, and the
  worker afterwards; \<open>yield\<close> puts one more list of messages in front of what the rest
  of the loop yields.
\<close>

definition guarded_update ::
  "worker \<Rightarrow> string \<Rightarrow> (nat \<Rightarrow> 'v poller) \<Rightarrow> (exn + 'v mqtt_message list) \<times> worker" where
  "guarded_update w name poller =
     timeout DeviceTimeoutError
       (retry (update_retries w) BluetoothBackendException
          (\<lambda>k s. update_device_state s name (poller k)) 0 w)"

definition yield ::
  "'m \<Rightarrow> ('m list \<times> exn option) \<times> worker \<Rightarrow> ('m list \<times> exn option) \<times> worker" where
  "yield messages later = (case later of ((ys, e), w) \<Rightarrow> ((messages # ys, e), w))"

fun status_update_loop ::
  "worker \<Rightarrow> 'v device list \<Rightarrow> ('v mqtt_message list list \<times> exn option) \<times> worker"
where
  "status_update_loop w [] = (([], None), w)"
| "status_update_loop w ((name, mac, poller) # rest) =
     (case guarded_update (log_line (updating_device_line name mac) w) name poller of
        (Inr messages, w1) \<Rightarrow> yield messages (status_update_loop w1 rest)
      | (Inl e, w1) \<Rightarrow>
          if e = BluetoothBackendException then
            (case avail_offline (log_line (error_during_update_line name mac) w1) name of
               (messages, w2) \<Rightarrow> yield messages (status_update_loop w2 rest))
          else if e = DeviceTimeoutError then
            (case avail_offline (log_line (time_out_during_update_line name mac) w1) name of
               (messages, w2) \<Rightarrow> yield messages (status_update_loop w2 rest))
          else (([], Some e), w1))"

definition status_update ::
  "worker \<Rightarrow> 'v device list \<Rightarrow> ('v mqtt_message list list \<times> exn option) \<times> worker" where
  "status_update w devices =
     status_update_loop (log_line (updating_devices_line (length devices)) w) devices"

subsection \<open>config\_device (lines 48 to 106)\<close>

text \<open>
  Python values as they occur in a discovery payload. A dictionary is the list of its
  items in insertion order; \<open>update\<close> overwrites the value of a key that is present, in
  place, and adds the others at the end.
\<close>

datatype pyvalue =
    PStr string
  | PFmt formatted
  | PList "pyvalue list"
  | PDict "(string \<times> pyvalue) list"

fun dict_set :: "string \<Rightarrow> 'b \<Rightarrow> (string \<times> 'b) list \<Rightarrow> (string \<times> 'b) list" where
  "dict_set k v [] = [(k, v)]"
| "dict_set k v ((k', v') # d) = (if k = k' then (k, v) # d else (k', v') # dict_set k v d)"

definition dict_update :: "(string \<times> 'b) list \<Rightarrow> (string \<times> 'b) list \<Rightarrow> (string \<times> 'b) list" where
  "dict_update d items = fold (\<lambda>(k, v). dict_set k v) items d"

datatype component = SENSOR | BINARY_SENSOR

datatype mqtt_config_message =
  MqttConfigMessage (component: component) (config_topic: formatted)
    (config_payload: "(string \<times> pyvalue) list")

definition config_device :: "string \<Rightarrow> string \<Rightarrow> mqtt_config_message list" where
  "config_device name mac =
     (let device =
            [(''identifiers'', PList [PStr mac, PFmt (format_discovery_id mac [name])]),
             (''manufacturer'', PStr ''Xiaomi''),
             (''model'', PStr ''MiFlora''),
             (''name'', PFmt (format_discovery_name [name]))];
          ret = map (\<lambda>attr.
            let payload =
                  [(''unique_id'', PFmt (format_discovery_id mac [name, attr])),
                   (''state_topic'', PFmt (format_prefixed_topic [name, attr])),
                   (''name'', PFmt (format_discovery_name [name, attr])),
                   (''device'', PDict device)];
                payload' =
                  (if attr = ''light'' then
                     dict_update payload
                       [(''unique_id'', PFmt (format_discovery_id mac [name, ''illuminance''])),
                        (''device_class'', PStr ''illuminance''),
                        (''unit_of_measurement'', PStr ''lux'')]
                   else if attr = ''moisture'' then
                     dict_update payload
                       [(''icon'', PStr ''mdi:water''), (''unit_of_measurement'', PStr ''%'')]
                   else if attr = ''conductivity'' then
                     dict_update payload
                       [(''icon'', PStr ''mdi:leaf''),
                        (''unit_of_measurement'', PStr (CHR 0xB5 # ''S/cm''))]
                   else if attr = ''temperature'' then
                     dict_update payload
                       [(''device_class'', PStr ''temperature''),
                        (''unit_of_measurement'', PStr (CHR 0xB0 # ''C''))]
                   else if attr = ATTR_BATTERY then
                     dict_update payload
                       [(''device_class'', PStr ''battery''), (''unit_of_measurement'', PStr ''%'')]
                   else payload)
            in MqttConfigMessage SENSOR (format_discovery_topic mac [name, attr]) payload')
            monitoredAttrs
      in ret @
         [MqttConfigMessage BINARY_SENSOR
            (format_discovery_topic mac [name, ATTR_LOW_BATTERY])
            [(''unique_id'', PFmt (format_discovery_id mac [name, ATTR_LOW_BATTERY])),
             (''state_topic'', PFmt (format_prefixed_topic [name, ATTR_LOW_BATTERY])),
             (''name'', PFmt (format_discovery_name [name, ATTR_LOW_BATTERY])),
             (''device'', PDict device),
             (''device_class'', PStr ''battery'')]])"

text \<open>
  The tag from which the identifier of a parameter's message is built: the parameter
  name, except that line 68 replaces the identifier of \<open>light\<close> by one built from
  \<open>illuminance\<close>.
\<close>

definition unique_id_tag :: "string \<Rightarrow> string" where
  "unique_id_tag attr = (if attr = ''light'' then ''illuminance'' else attr)"

subsection \<open>Workers, pollers and runs used in the statements\<close>

text \<open>
  A worker as the class body creates it (lines 24 to 27): no errors counted, status
  unknown. The threshold and the retry count come from the configuration.
\<close>

definition MifloraWorker :: "int \<Rightarrow> nat \<Rightarrow> worker" where
  "MifloraWorker threshold retries =
     \<lparr>errors_to_offline = threshold, update_retries = retries, error_count = 0,
      is_online = None, logged = []\<rparr>"

text \<open>
  Three pollers: one on which every call returns, one whose reads raise the transport
  error, and one whose reads do not return before the deadline.
\<close>

definition reads_ok :: "int poller" where
  "reads_ok = \<lparr>clear_cache = Returns (), parameter_value = (\<lambda>_. Returns 21)\<rparr>"

definition backend_fails :: "int poller" where
  "backend_fails =
     \<lparr>clear_cache = Returns (), parameter_value = (\<lambda>_. Raises BluetoothBackendException)\<rparr>"

definition times_out :: "int poller" where
  "times_out = \<lparr>clear_cache = Returns (), parameter_value = (\<lambda>_. NeverReturns)\<rparr>"

text \<open>
  A device that behaves the same at every attempt of a cycle, and one whose first \<open>n\<close>
  attempts fail with the transport error before it behaves as given.
\<close>

definition every_attempt :: "'v poller \<Rightarrow> nat \<Rightarrow> 'v poller" where
  "every_attempt p k = p"

definition after_failures :: "nat \<Rightarrow> int poller \<Rightarrow> nat \<Rightarrow> int poller" where
  "after_failures n p k = (if k < n then backend_fails else p)"

text \<open>
  A run of failed polls, as the worker sees it: one call of \<open>avail_offline\<close> per failure,
  for the device named, with nothing handled in between. The result lists what each
  call returned.
\<close>

fun failure_run :: "worker \<Rightarrow> string list \<Rightarrow> 'v mqtt_message list list \<times> worker" where
  "failure_run w [] = ([], w)"
| "failure_run w (name # names) =
     (case avail_offline w name of
        (messages, w1) \<Rightarrow>
          (case failure_run w1 names of (rest, w2) \<Rightarrow> (messages # rest, w2)))"

text \<open>
  Successive poll cycles: \<open>status_update\<close> is called once per cycle on the same worker,
  with the devices as they behave in that cycle.
\<close>

fun run_cycles ::
  "worker \<Rightarrow> 'v device list list \<Rightarrow> ('v mqtt_message list list \<times> exn option) list \<times> worker"
where
  "run_cycles w [] = ([], w)"
| "run_cycles w (devices # cycles) =
     (case status_update w devices of
        (result, w1) \<Rightarrow>
          (case run_cycles w1 cycles of (results, w2) \<Rightarrow> (result # results, w2)))"

section \<open>Properties\<close>

subsection \<open>Auxiliary facts\<close>

text \<open>
  The module never binds \<open>json\<close>, so \<open>update_device_state\<close> has only three ways to end,
  and none of them writes to the worker.
\<close>

lemma update_device_state_eq:
  "update_device_state w name p =
     (case read_data p of
        Returns data \<Rightarrow> Raises NameError
      | Raises e \<Rightarrow> Raises e
      | NeverReturns \<Rightarrow> NeverReturns, w)"
  by (simp add: update_device_state_def resolve_def module_globals_def split: outcome.splits)

lemma read_data_all_ok:
  assumes "clear_cache p = Returns ()"
    and "\<forall>attr \<in> set monitoredAttrs. \<exists>v. parameter_value p attr = Returns v"
  shows "\<exists>data. read_data p = Returns data"
proof -
  from assms(2) obtain t m l c b where
    "parameter_value p ''temperature'' = Returns t"
    "parameter_value p ''moisture'' = Returns m"
    "parameter_value p ''light'' = Returns l"
    "parameter_value p ''conductivity'' = Returns c"
    "parameter_value p ''battery'' = Returns b"
    unfolding monitoredAttrs_def ATTR_BATTERY_def by auto
  with assms(1) show ?thesis
    by (simp add: read_data_def and_then_def ATTR_BATTERY_def)
qed

text \<open>
  Attempts that fail with the retried class and leave the worker alone are skipped, as
  long as the retry count allows; the first attempt that ends otherwise decides.
\<close>

lemma retry_skip:
  assumes "\<forall>j<k. f (i + j) w = (Raises x, w)"
    and "k \<le> n"
    and "f (i + k) w = (r, w')"
    and "r \<noteq> Raises x"
  shows "retry n x f i w = (r, w')"
  using assms
proof (induction k arbitrary: n i)
  case 0
  then show ?case by (cases n) (auto split: outcome.splits)
next
  case (Suc k)
  then obtain m where n: "n = Suc m" by (cases n) auto
  from Suc.prems(1) have h0: "f i w = (Raises x, w)"
    by (metis add.right_neutral zero_less_Suc)
  have "\<forall>j<k. f (Suc i + j) w = (Raises x, w)"
    using Suc.prems(1) by (metis Suc_less_eq add_Suc_shift)
  moreover have "k \<le> m" using Suc.prems(2) n by simp
  moreover have "f (Suc i + k) w = (r, w')" using Suc.prems(3) by simp
  ultimately have "retry m x f (Suc i) w = (r, w')"
    using Suc.IH Suc.prems(4) by blast
  then show ?case using n h0 by simp
qed

lemma guarded_update_after_retries:
  assumes "\<forall>j<k. read_data (poller j) = Raises BluetoothBackendException"
    and "k \<le> update_retries w"
    and "fst (update_device_state w name (poller k)) = r"
    and "r \<noteq> Raises BluetoothBackendException"
  shows "guarded_update w name poller = timeout DeviceTimeoutError (r, w)"
proof -
  let ?f = "\<lambda>k s. update_device_state s name (poller k)"
  have a: "\<forall>j<k. ?f (0 + j) w = (Raises BluetoothBackendException, w)"
    using assms(1) by (simp add: update_device_state_eq)
  have b: "?f (0 + k) w = (r, w)"
    using assms(3) by (simp add: update_device_state_eq)
  have "retry (update_retries w) BluetoothBackendException ?f 0 w = (r, w)"
    using retry_skip [of k ?f 0 w BluetoothBackendException "update_retries w" r w,
        OF a assms(2) b assms(4)] .
  then show ?thesis by (simp add: guarded_update_def)
qed

text \<open>What one call of \<open>avail_offline\<close> returns and leaves behind, without the \<open>let\<close>.\<close>

lemma avail_offline_eq:
  "avail_offline w name =
     (if errors_to_offline w \<le> error_count w + 1 \<and> is_online w \<noteq> Some False
      then ([MqttMessage (format_topic [name, ''availability'']) (Text ''offline'')],
            (log_line (error_count_line name (error_count w + 1)) w)
              \<lparr>error_count := error_count w + 1, is_online := Some False\<rparr>)
      else ([], (log_line (error_count_line name (error_count w + 1)) w)
              \<lparr>error_count := error_count w + 1\<rparr>))"
  by (simp add: avail_offline_def Let_def log_line_def)

lemma avail_offline_length:
  "length (fst (avail_offline w name :: 'v mqtt_message list \<times> worker)) \<le> 1"
  by (simp add: avail_offline_eq)

lemma avail_offline_length_Suc:
  "length (fst (avail_offline w name :: 'v mqtt_message list \<times> worker)) \<le> Suc 0"
  using avail_offline_length[of w name] by simp

lemma log_line_fields:
  "errors_to_offline (log_line entry w) = errors_to_offline w"
  "update_retries (log_line entry w) = update_retries w"
  "error_count (log_line entry w) = error_count w"
  "is_online (log_line entry w) = is_online w"
  by (simp_all add: log_line_def)

lemma avail_offline_fields:
  "fst (avail_offline w name) =
     (if errors_to_offline w \<le> error_count w + 1 \<and> is_online w \<noteq> Some False
      then [MqttMessage (format_topic [name, ''availability'']) (Text ''offline'')] else [])"
  "errors_to_offline (snd (avail_offline w name :: 'v mqtt_message list \<times> worker)) = errors_to_offline w"
  "update_retries (snd (avail_offline w name :: 'v mqtt_message list \<times> worker)) = update_retries w"
  "error_count (snd (avail_offline w name :: 'v mqtt_message list \<times> worker)) = error_count w + 1"
  "is_online (snd (avail_offline w name :: 'v mqtt_message list \<times> worker)) =
     (if errors_to_offline w \<le> error_count w + 1 \<and> is_online w \<noteq> Some False
      then Some False else is_online w)"
  by (simp_all add: avail_offline_eq log_line_def)

text \<open>The three ways a call of \<open>retry\<close> ends for the pollers used in the statements.\<close>

lemma retry_exhausted:
  assumes "\<forall>k. f k w = (Raises x, w)"
  shows "retry n x f i w = (Raises x, w)"
  using assms by (induction n arbitrary: i) simp_all

lemma read_data_backend_fails: "read_data backend_fails = Raises BluetoothBackendException"
  by (simp add: read_data_def backend_fails_def and_then_def)

lemma read_data_times_out: "read_data times_out = NeverReturns"
  by (simp add: read_data_def times_out_def and_then_def)

lemma read_data_reads_ok:
  "read_data reads_ok =
     Returns [(''temperature'', 21), (''moisture'', 21), (''light'', 21),
              (''conductivity'', 21), (''battery'', 21)]"
  by (simp add: read_data_def reads_ok_def and_then_def ATTR_BATTERY_def)

lemma guarded_update_backend_fails:
  "guarded_update s name (every_attempt backend_fails) = (Inl BluetoothBackendException, s)"
proof -
  have "retry (update_retries s) BluetoothBackendException
          (\<lambda>k s. update_device_state s name (every_attempt backend_fails k)) 0 s =
        (Raises BluetoothBackendException, s)"
    by (rule retry_exhausted)
       (simp add: update_device_state_eq every_attempt_def read_data_backend_fails)
  then show ?thesis by (simp add: guarded_update_def timeout_def)
qed

lemma guarded_update_times_out:
  "guarded_update s name (every_attempt times_out) = (Inl DeviceTimeoutError, s)"
  using guarded_update_after_retries[of 0 "every_attempt times_out" s name NeverReturns]
  by (simp add: update_device_state_eq every_attempt_def read_data_times_out timeout_def)

lemma guarded_update_reads_ok:
  "guarded_update s name (every_attempt reads_ok) = (Inl NameError, s)"
  using guarded_update_after_retries[of 0 "every_attempt reads_ok" s name "Raises NameError"]
  by (simp add: update_device_state_eq every_attempt_def read_data_reads_ok timeout_def)

text \<open>One step of the loop of \<open>status_update\<close> for a device whose poll failed.\<close>

lemma yield_simps:
  "fst (fst (yield messages later)) = messages # fst (fst later)"
  "snd (fst (yield messages later)) = snd (fst later)"
  "snd (yield messages later) = snd later"
  by (simp_all add: yield_def split_beta)

lemma yield_fst: "fst (yield messages later) = (messages # fst (fst later), snd (fst later))"
  by (simp add: yield_def split_beta)

lemma status_update_loop_failure_step:
  assumes "guarded_update (log_line (updating_device_line name mac) w) name poller = (Inl e, w1)"
    and "e = BluetoothBackendException \<or> e = DeviceTimeoutError"
  shows "status_update_loop w ((name, mac, poller) # rest) =
           yield
             (fst (avail_offline
                (log_line (if e = BluetoothBackendException then error_during_update_line name mac
                           else time_out_during_update_line name mac) w1) name))
             (status_update_loop
                (snd (avail_offline
                   (log_line (if e = BluetoothBackendException then error_during_update_line name mac
                              else time_out_during_update_line name mac) w1) name
                   :: 'v mqtt_message list \<times> worker))
                (rest :: 'v device list))"
  using assms by (auto simp add: split_beta)

lemma status_update_loop_never_surfaces:
  "snd (fst (status_update_loop w devices)) \<noteq> Some BluetoothBackendException \<and>
   snd (fst (status_update_loop w devices)) \<noteq> Some DeviceTimeoutError"
proof (induction devices arbitrary: w)
  case Nil
  show ?case by simp
next
  case (Cons d devices)
  obtain name mac poller where d: "d = (name, mac, poller)" by (cases d) auto
  obtain r w1 where g: "guarded_update (log_line (updating_device_line name mac) w) name poller = (r, w1)"
    by (cases "guarded_update (log_line (updating_device_line name mac) w) name poller") auto
  show ?case
  proof (cases r)
    case (Inr messages)
    with d g Cons.IH[of w1] show ?thesis by (simp add: yield_simps)
  next
    case (Inl e)
    show ?thesis
    proof (cases "e = BluetoothBackendException \<or> e = DeviceTimeoutError")
      case True
      from g Inl have "guarded_update (log_line (updating_device_line name mac) w) name poller = (Inl e, w1)"
        by simp
      from status_update_loop_failure_step[OF this True, of devices] Cons.IH d
      show ?thesis by (simp add: yield_simps)
    next
      case False
      with d g Inl show ?thesis by simp
    qed
  qed
qed

lemma status_update_loop_all_fail:
  assumes "\<forall>(name, mac, poller) \<in> set devices. \<forall>s. \<exists>e.
             fst (guarded_update s name poller) = Inl e \<and>
             (e = BluetoothBackendException \<or> e = DeviceTimeoutError)"
  shows "snd (fst (status_update_loop w devices)) = None \<and>
         length (fst (fst (status_update_loop w devices))) = length devices \<and>
         list_all (\<lambda>messages. length messages \<le> 1) (fst (fst (status_update_loop w devices)))"
  using assms
proof (induction devices arbitrary: w)
  case Nil
  show ?case by simp
next
  case (Cons d devices)
  obtain name mac poller where d: "d = (name, mac, poller)" by (cases d) auto
  let ?w0 = "log_line (updating_device_line name mac) w"
  from Cons.prems d obtain e where e: "fst (guarded_update ?w0 name poller) = Inl e"
    "e = BluetoothBackendException \<or> e = DeviceTimeoutError" by fastforce
  then have g: "guarded_update ?w0 name poller = (Inl e, snd (guarded_update ?w0 name poller))"
    by (metis prod.collapse)
  have rest: "\<forall>(name, mac, poller) \<in> set devices. \<forall>s. \<exists>e.
             fst (guarded_update s name poller) = Inl e \<and>
             (e = BluetoothBackendException \<or> e = DeviceTimeoutError)"
    using Cons.prems by simp
  have step: "status_update_loop w (d # devices) =
      yield
        (fst (avail_offline
           (log_line (if e = BluetoothBackendException then error_during_update_line name mac
                      else time_out_during_update_line name mac)
              (snd (guarded_update ?w0 name poller))) name))
        (status_update_loop
           (snd (avail_offline
              (log_line (if e = BluetoothBackendException then error_during_update_line name mac
                         else time_out_during_update_line name mac)
                 (snd (guarded_update ?w0 name poller))) name
              :: 'a mqtt_message list \<times> worker))
           devices)"
    unfolding d by (rule status_update_loop_failure_step[OF g e(2)])
  show ?case
    unfolding step using Cons.IH[OF rest]
    by (simp add: yield_simps avail_offline_length_Suc)
qed

text \<open>Whole cycles, for the devices of the scenarios, seen through the worker's fields.\<close>

lemma status_update_one_backend_fails:
  "fst (status_update w [(name, mac, every_attempt backend_fails)]) =
     ([if errors_to_offline w \<le> error_count w + 1 \<and> is_online w \<noteq> Some False
       then [MqttMessage (format_topic [name, ''availability'']) (Text ''offline'')] else []],
      None)"
  "errors_to_offline (snd (status_update w [(name, mac, every_attempt backend_fails)])) =
     errors_to_offline w"
  "error_count (snd (status_update w [(name, mac, every_attempt backend_fails)])) =
     error_count w + 1"
  "is_online (snd (status_update w [(name, mac, every_attempt backend_fails)])) =
     (if errors_to_offline w \<le> error_count w + 1 \<and> is_online w \<noteq> Some False
      then Some False else is_online w)"
  by (simp_all add: status_update_def guarded_update_backend_fails split_beta yield_simps
      yield_fst avail_offline_fields log_line_fields)

lemma status_update_two_backend_fail:
  "fst (status_update w [(name, mac, every_attempt backend_fails),
                         (name', mac', every_attempt backend_fails)]) =
     ([if errors_to_offline w \<le> error_count w + 1 \<and> is_online w \<noteq> Some False
       then [MqttMessage (format_topic [name, ''availability'']) (Text ''offline'')] else [],
       if errors_to_offline w \<le> error_count w + 2 \<and> is_online w \<noteq> Some False \<and>
          \<not> errors_to_offline w \<le> error_count w + 1
       then [MqttMessage (format_topic [name', ''availability'']) (Text ''offline'')] else []],
      None)"
  "errors_to_offline (snd (status_update w [(name, mac, every_attempt backend_fails),
                         (name', mac', every_attempt backend_fails)])) = errors_to_offline w"
  "error_count (snd (status_update w [(name, mac, every_attempt backend_fails),
                         (name', mac', every_attempt backend_fails)])) = error_count w + 2"
  "is_online (snd (status_update w [(name, mac, every_attempt backend_fails),
                         (name', mac', every_attempt backend_fails)])) =
     (if errors_to_offline w \<le> error_count w + 2 \<and> is_online w \<noteq> Some False
      then Some False else is_online w)"
  by (auto simp add: status_update_def guarded_update_backend_fails split_beta yield_simps
      yield_fst avail_offline_fields log_line_fields)

lemma status_update_first_reads_ok:
  "fst (status_update w ((name, mac, every_attempt reads_ok) # rest)) = ([], Some NameError)"
  "errors_to_offline (snd (status_update w ((name, mac, every_attempt reads_ok) # rest))) =
     errors_to_offline w"
  "error_count (snd (status_update w ((name, mac, every_attempt reads_ok) # rest))) =
     error_count w"
  "is_online (snd (status_update w ((name, mac, every_attempt reads_ok) # rest))) =
     is_online w"
  by (simp_all add: status_update_def guarded_update_reads_ok log_line_fields)

lemma status_update_times_out_then_reads_ok:
  "fst (status_update w [(name, mac, every_attempt times_out),
                         (name', mac', every_attempt reads_ok)]) =
     ([if errors_to_offline w \<le> error_count w + 1 \<and> is_online w \<noteq> Some False
       then [MqttMessage (format_topic [name, ''availability'']) (Text ''offline'')] else []],
      Some NameError)"
  "errors_to_offline (snd (status_update w [(name, mac, every_attempt times_out),
                         (name', mac', every_attempt reads_ok)])) = errors_to_offline w"
  "error_count (snd (status_update w [(name, mac, every_attempt times_out),
                         (name', mac', every_attempt reads_ok)])) = error_count w + 1"
  "is_online (snd (status_update w [(name, mac, every_attempt times_out),
                         (name', mac', every_attempt reads_ok)])) =
     (if errors_to_offline w \<le> error_count w + 1 \<and> is_online w \<noteq> Some False
      then Some False else is_online w)"
  by (simp_all add: status_update_def guarded_update_times_out guarded_update_reads_ok
      split_beta yield_simps yield_fst avail_offline_fields log_line_fields)

lemma run_cycles_Nil: "fst (run_cycles w []) = []" "snd (run_cycles w []) = w"
  by simp_all

lemma run_cycles_Cons:
  "run_cycles w (devices # cycles) =
     (fst (status_update w devices) # fst (run_cycles (snd (status_update w devices)) cycles),
      snd (run_cycles (snd (status_update w devices)) cycles))"
  by (simp add: split_beta)

lemma MifloraWorker_fields:
  "errors_to_offline (MifloraWorker threshold retries) = threshold"
  "update_retries (MifloraWorker threshold retries) = retries"
  "error_count (MifloraWorker threshold retries) = 0"
  "is_online (MifloraWorker threshold retries) = None"
  by (simp_all add: MifloraWorker_def)

text \<open>A run of failures, one call of \<open>avail_offline\<close> after the other.\<close>

lemma failure_run_Cons:
  "(failure_run w (name # names) :: 'v mqtt_message list list \<times> worker) =
     (fst (avail_offline w name :: 'v mqtt_message list \<times> worker) #
        fst (failure_run (snd (avail_offline w name :: 'v mqtt_message list \<times> worker)) names
               :: 'v mqtt_message list list \<times> worker),
      snd (failure_run (snd (avail_offline w name :: 'v mqtt_message list \<times> worker)) names
               :: 'v mqtt_message list list \<times> worker))"
  by (simp add: split_beta)

lemma failure_run_length:
  "length (fst (failure_run w names :: 'v mqtt_message list list \<times> worker)) = length names"
proof (induction names arbitrary: w)
  case Nil
  show ?case by simp
next
  case (Cons name names)
  show ?case unfolding failure_run_Cons using Cons by simp
qed

lemma failure_run_error_count:
  "error_count (snd (failure_run w names :: 'v mqtt_message list list \<times> worker)) =
     error_count w + int (length names)"
proof (induction names arbitrary: w)
  case Nil
  show ?case by simp
next
  case (Cons name names)
  have "error_count (snd (avail_offline w name :: 'v mqtt_message list \<times> worker)) = error_count w + 1"
    by (simp add: avail_offline_eq log_line_def)
  then show ?case unfolding failure_run_Cons
    by (simp add: Cons)
qed

lemma failure_run_concat:
  "length (concat (fst (failure_run w names :: 'v mqtt_message list list \<times> worker))) \<le>
     (if is_online w = Some False then 0 else 1)"
proof (induction names arbitrary: w)
  case Nil
  show ?case by simp
next
  case (Cons name names)
  show ?case
    unfolding failure_run_Cons
    using Cons[of "snd (avail_offline w name :: 'v mqtt_message list \<times> worker)"]
    by (simp add: avail_offline_eq log_line_def split: if_splits)
qed

lemma failure_run_nth:
  "i < length names \<Longrightarrow>
   fst (failure_run w names :: 'v mqtt_message list list \<times> worker) ! i =
     (if is_online w \<noteq> Some False \<and> i = nat (errors_to_offline w - error_count w - 1)
      then [MqttMessage (format_topic [names ! i, ''availability'']) (Text ''offline'')]
      else [])"
proof (induction names arbitrary: w i)
  case Nil
  then show ?case by simp
next
  case (Cons name names)
  define w1 where "w1 = snd (avail_offline w name :: 'v mqtt_message list \<times> worker)"
  show ?case
  proof (cases i)
    case 0
    then show ?thesis
      unfolding failure_run_Cons by (auto simp add: avail_offline_eq)
  next
    case (Suc j)
    with Cons.prems have j: "j < length names" by simp
    have c: "error_count w1 = error_count w + 1" and t: "errors_to_offline w1 = errors_to_offline w"
      by (simp_all add: w1_def avail_offline_eq log_line_def)
    have o: "is_online w1 =
          (if errors_to_offline w \<le> error_count w + 1 \<and> is_online w \<noteq> Some False
           then Some False else is_online w)"
      by (simp add: w1_def avail_offline_eq log_line_def)
    have "fst (failure_run w (name # names) :: 'v mqtt_message list list \<times> worker) ! i =
          fst (failure_run w1 names :: 'v mqtt_message list list \<times> worker) ! j"
      unfolding failure_run_Cons w1_def using Suc by simp
    also have "\<dots> = (if is_online w1 \<noteq> Some False \<and> j = nat (errors_to_offline w1 - error_count w1 - 1)
      then [MqttMessage (format_topic [names ! j, ''availability'']) (Text ''offline'')]
      else [])"
      using Cons.IH[OF j] .
    also have "\<dots> = (if is_online w \<noteq> Some False \<and> i = nat (errors_to_offline w - error_count w - 1)
      then [MqttMessage (format_topic [(name # names) ! i, ''availability'']) (Text ''offline'')]
      else [])"
    proof (cases "errors_to_offline w \<le> error_count w + 1")
      case True
      then have "nat (errors_to_offline w - error_count w - 1) = 0" by simp
      with True show ?thesis unfolding c t o Suc by simp
    next
      case False
      then have "Suc j = nat (errors_to_offline w - error_count w - 1) \<longleftrightarrow>
                 j = nat (errors_to_offline w - (error_count w + 1) - 1)" by arith
      with False show ?thesis unfolding c t o Suc by simp
    qed
    finally show ?thesis .
  qed
qed

subsection \<open>One failure streak and one status per worker\<close>

text \<open>
  Claim C1 says that handling one device's poll result changes only that device's
  failure streak and status and leaves those of every other device unchanged. The
  worker has no streak or status per device: \<open>error_count\<close> and \<open>is_online\<close> are
  attributes of the worker. With a threshold of 2 and two devices that both fail with
  the transport error, polling B first makes A's first own failure the second one
  counted, and A is declared offline; polled alone, A's first failure emits nothing.
  B's failure has changed the streak that A's handling reads.
\<close>

theorem shared_streak_counterexample:
  "fst (status_update (MifloraWorker 2 0)
          [(''B'', ''C4:7C:8D:00:00:0B'', every_attempt backend_fails),
           (''A'', ''C4:7C:8D:00:00:0A'', every_attempt backend_fails)]) =
     ([[], [MqttMessage (format_topic [''A'', ''availability'']) (Text ''offline'')]], None) \<and>
   fst (status_update (MifloraWorker 2 0)
          [(''A'', ''C4:7C:8D:00:00:0A'', every_attempt backend_fails)]) =
     ([[]], None) \<and>
   error_count (snd (avail_offline (MifloraWorker 2 0) ''B'' :: int mqtt_message list \<times> worker)) = 1"
  by (simp add: status_update_def guarded_update_def update_device_state_eq read_data_def
      and_then_def backend_fails_def every_attempt_def timeout_def avail_offline_eq
      MifloraWorker_def log_line_def yield_def)

text \<open>
  Claim C1, amended. The failure streak and the status are kept once per worker and are
  shared by all its devices. Handling a failure, for whichever device, leaves the
  threshold and the retry count as they were, adds one to the worker's single
  \<open>error_count\<close>, and sets the worker's single \<open>is_online\<close> to False exactly when the
  count has reached the threshold and the status was not False already; the device name
  enters neither. So a failure of one device followed by a failure of another leaves a
  count that is two higher. Handling a read of a device changes neither the threshold
  nor the retry count.
\<close>

theorem streak_and_status_are_per_worker:
  "errors_to_offline (snd (avail_offline w name :: 'v mqtt_message list \<times> worker)) = errors_to_offline w \<and>
   update_retries (snd (avail_offline w name :: 'v mqtt_message list \<times> worker)) = update_retries w \<and>
   error_count (snd (avail_offline w name :: 'v mqtt_message list \<times> worker)) = error_count w + 1 \<and>
   is_online (snd (avail_offline w name :: 'v mqtt_message list \<times> worker)) =
     (if errors_to_offline w \<le> error_count w + 1 \<and> is_online w \<noteq> Some False
      then Some False else is_online w) \<and>
   error_count (snd (avail_offline (snd (avail_offline w other :: 'v mqtt_message list \<times> worker)) name
                      :: 'v mqtt_message list \<times> worker)) = error_count w + 2 \<and>
   errors_to_offline (snd (update_device_state w name (p :: 'v poller))) = errors_to_offline w \<and>
   update_retries (snd (update_device_state w name (p :: 'v poller))) = update_retries w"
  by (simp add: avail_offline_eq log_line_def update_device_state_eq)

subsection \<open>The two-device scenario\<close>

text \<open>
  Claim C2, evaluated. Devices A (every read returns) and B (every read runs into the
  deadline), threshold 1. With A polled first, each of the two cycles ends with
  NameError while A is handled: nothing is yielded for A, and B is not polled. With B
  polled first, the first cycle yields B's offline message and the second an empty list
  for B, and both cycles then end with NameError at A. No cycle yields a telemetry
  message for A.
\<close>

theorem two_device_scenario_ends_in_NameError:
  "fst (run_cycles (MifloraWorker 1 0)
     [[(''A'', ''C4:7C:8D:00:00:0A'', every_attempt reads_ok),
       (''B'', ''C4:7C:8D:00:00:0B'', every_attempt times_out)],
      [(''A'', ''C4:7C:8D:00:00:0A'', every_attempt reads_ok),
       (''B'', ''C4:7C:8D:00:00:0B'', every_attempt times_out)]]) =
     [([], Some NameError), ([], Some NameError)] \<and>
   fst (run_cycles (MifloraWorker 1 0)
     [[(''B'', ''C4:7C:8D:00:00:0B'', every_attempt times_out),
       (''A'', ''C4:7C:8D:00:00:0A'', every_attempt reads_ok)],
      [(''B'', ''C4:7C:8D:00:00:0B'', every_attempt times_out),
       (''A'', ''C4:7C:8D:00:00:0A'', every_attempt reads_ok)]]) =
     [([[MqttMessage (format_topic [''B'', ''availability'']) (Text ''offline'')]],
       Some NameError),
      ([[]], Some NameError)]"
  by (simp add: run_cycles_Nil run_cycles_Cons status_update_first_reads_ok
      status_update_times_out_then_reads_ok MifloraWorker_fields del: run_cycles.simps)

subsection \<open>The success path ends in NameError\<close>

text \<open>
  Claim C3. Whenever \<open>clear_cache\<close> returns and all five parameter reads of an attempt
  return a value, \<open>update_device_state\<close> raises NameError at line 160, in any worker
  state and without changing it: the module uses \<open>json\<close> and never binds it. No
  telemetry message is returned. When such an attempt is reached within the retry
  budget (the attempts before it failed with the retried transport error),
  \<open>status_update\<close> catches nothing: NameError is neither of the two classes it handles,
  the generator ends with NameError without yielding for the device, the devices after
  it are not polled, and the worker is as before apart from the debug line of line 122.
\<close>

theorem update_device_state_raises_NameError:
  assumes "clear_cache (poller k) = Returns ()"
    and "\<forall>attr \<in> set monitoredAttrs. \<exists>v. parameter_value (poller k) attr = Returns v"
    and "\<forall>j<k. read_data (poller j) = Raises BluetoothBackendException"
    and "k \<le> update_retries w"
  shows "(\<forall>s. update_device_state s name (poller k) = (Raises NameError, s)) \<and>
         status_update_loop w ((name, mac, poller) # rest) =
           (([], Some NameError),
            log_line (updating_device_line name mac) w)"
proof -
  from assms(1,2) obtain data where d: "read_data (poller k) = Returns data"
    using read_data_all_ok by blast
  have u: "\<And>s. update_device_state s name (poller k) = (Raises NameError, s)"
    by (simp add: update_device_state_eq d)
  let ?w0 = "log_line (updating_device_line name mac) w"
  have "guarded_update ?w0 name poller = timeout DeviceTimeoutError (Raises NameError, ?w0)"
    using assms(3,4)
    by (intro guarded_update_after_retries[where k = k]) (simp_all add: u log_line_def)
  then have "guarded_update ?w0 name poller = (Inl NameError, ?w0)"
    by (simp add: timeout_def)
  then have "status_update_loop w ((name, mac, poller) # rest) = (([], Some NameError), ?w0)"
    by simp
  with u show ?thesis by blast
qed

text \<open>
  The theorem at a device whose first attempt fails with the transport error and whose
  second attempt reads all five parameters, with one retry allowed.
\<close>

theorem update_device_state_raises_NameError_witness:
  "update_device_state (MifloraWorker 3 1) ''D1'' reads_ok =
     (Raises NameError, MifloraWorker 3 1) \<and>
   status_update_loop (MifloraWorker 3 1)
     [(''D1'', ''C4:7C:8D:6A:3E:7B'', after_failures 1 reads_ok)] =
     (([], Some NameError),
      log_line (updating_device_line ''D1'' ''C4:7C:8D:6A:3E:7B'') (MifloraWorker 3 1))"
  using update_device_state_raises_NameError
    [of "after_failures 1 reads_ok" 1 "MifloraWorker 3 1"
        "''D1''" "''C4:7C:8D:6A:3E:7B''" "[]"]
  by (simp add: after_failures_def reads_ok_def backend_fails_def read_data_def and_then_def
      monitoredAttrs_def ATTR_BATTERY_def MifloraWorker_def)

subsection \<open>The five-cycle scenario\<close>

text \<open>
  Claim C4, evaluated. One device, threshold 3, one retry; the polls of four cycles fail
  with the transport error and the reads of the fifth return. Cycles one and two yield
  an empty list, cycle three yields the offline message, cycle four an empty list.
  Cycle five yields nothing and ends with NameError: no online message, no telemetry
  message, and the worker still counts 4 errors and is still offline.
\<close>

theorem five_cycle_scenario_ends_in_NameError:
  "fst (run_cycles (MifloraWorker 3 1)
     [[(''D1'', ''C4:7C:8D:6A:3E:7B'', every_attempt backend_fails)],
      [(''D1'', ''C4:7C:8D:6A:3E:7B'', every_attempt backend_fails)],
      [(''D1'', ''C4:7C:8D:6A:3E:7B'', every_attempt backend_fails)],
      [(''D1'', ''C4:7C:8D:6A:3E:7B'', every_attempt backend_fails)],
      [(''D1'', ''C4:7C:8D:6A:3E:7B'', every_attempt reads_ok)]]) =
     [([[]], None),
      ([[]], None),
      ([[MqttMessage (format_topic [''D1'', ''availability'']) (Text ''offline'')]], None),
      ([[]], None),
      ([], Some NameError)] \<and>
   error_count (snd (run_cycles (MifloraWorker 3 1)
     [[(''D1'', ''C4:7C:8D:6A:3E:7B'', every_attempt backend_fails)],
      [(''D1'', ''C4:7C:8D:6A:3E:7B'', every_attempt backend_fails)],
      [(''D1'', ''C4:7C:8D:6A:3E:7B'', every_attempt backend_fails)],
      [(''D1'', ''C4:7C:8D:6A:3E:7B'', every_attempt backend_fails)],
      [(''D1'', ''C4:7C:8D:6A:3E:7B'', every_attempt reads_ok)]])) = 4 \<and>
   is_online (snd (run_cycles (MifloraWorker 3 1)
     [[(''D1'', ''C4:7C:8D:6A:3E:7B'', every_attempt backend_fails)],
      [(''D1'', ''C4:7C:8D:6A:3E:7B'', every_attempt backend_fails)],
      [(''D1'', ''C4:7C:8D:6A:3E:7B'', every_attempt backend_fails)],
      [(''D1'', ''C4:7C:8D:6A:3E:7B'', every_attempt backend_fails)],
      [(''D1'', ''C4:7C:8D:6A:3E:7B'', every_attempt reads_ok)]])) = Some False"
  by (simp add: run_cycles_Nil run_cycles_Cons status_update_one_backend_fails status_update_first_reads_ok
      MifloraWorker_fields del: run_cycles.simps)

subsection \<open>At most one offline message per run of failures\<close>

text \<open>
  Claim C5 speaks of the failure streak of a device and of the failures of that
  device's own run. The worker counts the failures of all its devices in one
  \<open>error_count\<close>. With threshold 3 and two devices A and B that both fail with the
  transport error in three cycles, the offline message of A goes out in the second
  cycle, at A's second failure and not at its third, and B, which fails three times in
  a row, gets no offline message at all.
\<close>

theorem per_device_streak_counterexample:
  "fst (run_cycles (MifloraWorker 3 0)
     [[(''A'', ''C4:7C:8D:00:00:0A'', every_attempt backend_fails),
       (''B'', ''C4:7C:8D:00:00:0B'', every_attempt backend_fails)],
      [(''A'', ''C4:7C:8D:00:00:0A'', every_attempt backend_fails),
       (''B'', ''C4:7C:8D:00:00:0B'', every_attempt backend_fails)],
      [(''A'', ''C4:7C:8D:00:00:0A'', every_attempt backend_fails),
       (''B'', ''C4:7C:8D:00:00:0B'', every_attempt backend_fails)]]) =
     [([[], []], None),
      ([[MqttMessage (format_topic [''A'', ''availability'']) (Text ''offline'')], []], None),
      ([[], []], None)]"
  by (simp add: run_cycles_Nil run_cycles_Cons status_update_two_backend_fail
      MifloraWorker_fields del: run_cycles.simps)

text \<open>
  Claim C5, amended. The streak is the worker's: in a run of consecutive poll failures
  handled by the worker, from any worker state and for whichever of its devices, one
  list of messages is returned per failure, and all of them together hold at most one
  message. The failure with index \<open>i\<close> of the run returns the offline message of the
  device it was for exactly when the worker's status was not offline at the start of
  the run and \<open>i\<close> is the first failure at which the worker's count has reached the
  threshold (the first of the run when it had reached it before); every other failure
  of the run returns the empty list. The count is never reset or capped by a failure:
  after the run it is the count before plus the number of failures.
\<close>

theorem failure_run_offline_once:
  "length (fst (failure_run w names :: 'v mqtt_message list list \<times> worker)) = length names \<and>
   length (concat (fst (failure_run w names :: 'v mqtt_message list list \<times> worker))) \<le> 1 \<and>
   (\<forall>i<length names.
      fst (failure_run w names :: 'v mqtt_message list list \<times> worker) ! i =
        (if is_online w \<noteq> Some False \<and> i = nat (errors_to_offline w - error_count w - 1)
         then [MqttMessage (format_topic [names ! i, ''availability'']) (Text ''offline'')]
         else [])) \<and>
   error_count (snd (failure_run w names :: 'v mqtt_message list list \<times> worker)) =
     error_count w + int (length names)"
proof -
  have "length (concat (fst (failure_run w names :: 'v mqtt_message list list \<times> worker))) \<le>
          (if is_online w = Some False then 0 else 1)"
    by (rule failure_run_concat)
  also have "\<dots> \<le> 1" by simp
  finally have "length (concat (fst (failure_run w names :: 'v mqtt_message list list \<times> worker))) \<le> 1" .
  moreover note failure_run_length[of w names] failure_run_error_count[of w names]
  moreover have "\<forall>i<length names.
      fst (failure_run w names :: 'v mqtt_message list list \<times> worker) ! i =
        (if is_online w \<noteq> Some False \<and> i = nat (errors_to_offline w - error_count w - 1)
         then [MqttMessage (format_topic [names ! i, ''availability'']) (Text ''offline'')]
         else [])"
    using failure_run_nth by blast
  ultimately show ?thesis by blast
qed

text \<open>
  The theorem at a fresh worker with threshold 3 and five failures: the third failure
  returns the offline message, the fourth nothing, and the count ends at 5.
\<close>

theorem failure_run_offline_once_witness:
  "fst (failure_run (MifloraWorker 3 0) [''A'', ''B'', ''A'', ''B'', ''A'']
      :: int mqtt_message list list \<times> worker) ! 2 =
     [MqttMessage (format_topic [''A'', ''availability'']) (Text ''offline'')] \<and>
   fst (failure_run (MifloraWorker 3 0) [''A'', ''B'', ''A'', ''B'', ''A'']
      :: int mqtt_message list list \<times> worker) ! 3 = [] \<and>
   error_count (snd (failure_run (MifloraWorker 3 0) [''A'', ''B'', ''A'', ''B'', ''A'']
      :: int mqtt_message list list \<times> worker)) = 5"
proof -
  have n: "(2::nat) < length [''A'', ''B'', ''A'', ''B'', ''A''] \<and>
           (3::nat) < length [''A'', ''B'', ''A'', ''B'', ''A'']" by simp
  from failure_run_offline_once [of "MifloraWorker 3 0" "[''A'', ''B'', ''A'', ''B'', ''A'']",
      where ?'v = int] n
  show ?thesis
    by (simp add: MifloraWorker_def)
qed

subsection \<open>What a successful read leaves behind\<close>

text \<open>
  Claim C6, evaluated. The worker is offline with four errors counted and threshold 3;
  all reads of the device return. Lines 161 to 164, which would emit the online message,
  set the status and reset the count, are not reached: the call raises NameError at
  line 160 and the worker is unchanged, still offline with four errors counted.
\<close>

theorem success_leaves_streak_and_status:
  "update_device_state ((MifloraWorker 3 1)\<lparr>error_count := 4, is_online := Some False\<rparr>) ''D1'' reads_ok =
     (Raises NameError, (MifloraWorker 3 1)\<lparr>error_count := 4, is_online := Some False\<rparr>)"
  by (simp add: update_device_state_eq read_data_def and_then_def reads_ok_def ATTR_BATTERY_def)

text \<open>
  Claim C7, evaluated. A cycle over one device whose reads all return yields no list of
  messages at all, so no telemetry message, and ends with NameError.
\<close>

theorem success_yields_no_telemetry:
  "fst (status_update (MifloraWorker 3 1) [(''D1'', ''C4:7C:8D:6A:3E:7B'', every_attempt reads_ok)]) =
     ([], Some NameError)"
  by (simp add: status_update_def guarded_update_def update_device_state_eq read_data_def
      and_then_def reads_ok_def every_attempt_def timeout_def ATTR_BATTERY_def
      MifloraWorker_def log_line_def yield_def numeral_eq_Suc)

subsection \<open>Poll failures stay inside the cycle\<close>

text \<open>
  Claim C8. For every worker and every list of devices, a cycle of \<open>status_update\<close>
  never ends with BluetoothBackendException or DeviceTimeoutError. When the guarded
  update of a device ends with one of the two, the loop writes the log line of that
  kind, calls \<open>avail_offline\<close> for the device, yields what it returns, which is at most
  one message, and goes on with the next device from the worker \<open>avail_offline\<close> left.
  When the guarded update of every device ends with one of the two, the cycle ends
  normally, having yielded one list per device, each of at most one message.
\<close>

theorem poll_failures_are_contained:
  "snd (fst (status_update w devices)) \<noteq> Some BluetoothBackendException \<and>
   snd (fst (status_update w devices)) \<noteq> Some DeviceTimeoutError \<and>
   (guarded_update (log_line (updating_device_line name mac) s) name
      (poller :: nat \<Rightarrow> 'v poller) = (Inl e, s1) \<and>
    (e = BluetoothBackendException \<or> e = DeviceTimeoutError) \<longrightarrow>
      length (fst (avail_offline
                (log_line (if e = BluetoothBackendException then error_during_update_line name mac
                           else time_out_during_update_line name mac) s1) name
                :: 'v mqtt_message list \<times> worker)) \<le> 1 \<and>
      status_update_loop s ((name, mac, poller) # rest) =
        yield
          (fst (avail_offline
             (log_line (if e = BluetoothBackendException then error_during_update_line name mac
                        else time_out_during_update_line name mac) s1) name))
          (status_update_loop
             (snd (avail_offline
                (log_line (if e = BluetoothBackendException then error_during_update_line name mac
                           else time_out_during_update_line name mac) s1) name
                :: 'v mqtt_message list \<times> worker))
             rest)) \<and>
   ((\<forall>(name, mac, poller) \<in> set devices. \<forall>s. \<exists>e.
        fst (guarded_update s name poller) = Inl e \<and>
        (e = BluetoothBackendException \<or> e = DeviceTimeoutError)) \<longrightarrow>
      snd (fst (status_update w devices)) = None \<and>
      length (fst (fst (status_update w devices))) = length devices \<and>
      list_all (\<lambda>messages. length messages \<le> 1) (fst (fst (status_update w (devices :: 'v device list)))))"
proof (intro conjI impI)
  show "snd (fst (status_update w devices)) \<noteq> Some BluetoothBackendException"
    "snd (fst (status_update w devices)) \<noteq> Some DeviceTimeoutError"
    by (simp_all add: status_update_def status_update_loop_never_surfaces)
next
  assume a: "guarded_update (log_line (updating_device_line name mac) s) name poller = (Inl e, s1) \<and>
    (e = BluetoothBackendException \<or> e = DeviceTimeoutError)"
  show "length (fst (avail_offline
                (log_line (if e = BluetoothBackendException then error_during_update_line name mac
                           else time_out_during_update_line name mac) s1) name
                :: 'v mqtt_message list \<times> worker)) \<le> 1"
    by (rule avail_offline_length)
  from a show "status_update_loop s ((name, mac, poller) # rest) =
        yield
          (fst (avail_offline
             (log_line (if e = BluetoothBackendException then error_during_update_line name mac
                        else time_out_during_update_line name mac) s1) name))
          (status_update_loop
             (snd (avail_offline
                (log_line (if e = BluetoothBackendException then error_during_update_line name mac
                           else time_out_during_update_line name mac) s1) name
                :: 'v mqtt_message list \<times> worker))
             rest)"
    by (intro status_update_loop_failure_step) simp_all
next
  assume a: "\<forall>(name, mac, poller) \<in> set devices. \<forall>s. \<exists>e.
        fst (guarded_update s name poller) = Inl e \<and>
        (e = BluetoothBackendException \<or> e = DeviceTimeoutError)"
  from status_update_loop_all_fail[OF a]
  show "snd (fst (status_update w devices)) = None"
    "length (fst (fst (status_update w devices))) = length devices"
    "list_all (\<lambda>messages. length messages \<le> 1) (fst (fst (status_update w devices)))"
    by (simp_all add: status_update_def)
qed

text \<open>
  The theorem at a worker with threshold 1 and two devices, one failing with the
  transport error and one running into the deadline.
\<close>

theorem poll_failures_are_contained_witness:
  "snd (fst (status_update (MifloraWorker 1 0)
       [(''A'', ''C4:7C:8D:00:00:0A'', every_attempt backend_fails),
        (''B'', ''C4:7C:8D:00:00:0B'', every_attempt times_out)])) = None \<and>
   length (fst (fst (status_update (MifloraWorker 1 0)
       [(''A'', ''C4:7C:8D:00:00:0A'', every_attempt backend_fails),
        (''B'', ''C4:7C:8D:00:00:0B'', every_attempt times_out)]))) = 2 \<and>
   status_update_loop (MifloraWorker 1 0)
       [(''B'', ''C4:7C:8D:00:00:0B'', every_attempt times_out),
        (''A'', ''C4:7C:8D:00:00:0A'', every_attempt backend_fails)] =
     yield
       (fst (avail_offline
          (log_line (time_out_during_update_line ''B'' ''C4:7C:8D:00:00:0B'')
             (log_line (updating_device_line ''B'' ''C4:7C:8D:00:00:0B'') (MifloraWorker 1 0)))
          ''B''))
       (status_update_loop
          (snd (avail_offline
             (log_line (time_out_during_update_line ''B'' ''C4:7C:8D:00:00:0B'')
                (log_line (updating_device_line ''B'' ''C4:7C:8D:00:00:0B'') (MifloraWorker 1 0)))
             ''B'' :: int mqtt_message list \<times> worker))
          [(''A'', ''C4:7C:8D:00:00:0A'', every_attempt backend_fails)])"
  using poll_failures_are_contained
    [of "MifloraWorker 1 0"
        "[(''A'', ''C4:7C:8D:00:00:0A'', every_attempt backend_fails),
          (''B'', ''C4:7C:8D:00:00:0B'', every_attempt times_out)]"
        "''B''" "''C4:7C:8D:00:00:0B''" "MifloraWorker 1 0" "every_attempt times_out"
        DeviceTimeoutError
        "log_line (updating_device_line ''B'' ''C4:7C:8D:00:00:0B'') (MifloraWorker 1 0)"
        "[(''A'', ''C4:7C:8D:00:00:0A'', every_attempt backend_fails)]"]
  by (simp add: guarded_update_backend_fails guarded_update_times_out)

subsection \<open>The deadline wraps the retried read\<close>

text \<open>
  Claim C9. When an attempt to read a device does not return before the deadline, and
  the attempts before it (if any) failed with the retried transport error and were
  within the retry count, then the guarded update ends with DeviceTimeoutError,
  whatever part of the retry count is left. The loop handles it in the branch of line
  139: it writes the time-out log line, which differs from the log line of a transport
  error, calls \<open>avail_offline\<close>, yields the result and goes on with the next device.
\<close>

theorem timeout_takes_precedence:
  assumes "\<forall>j<k. read_data (poller j) = Raises BluetoothBackendException"
    and "k \<le> update_retries w"
    and "read_data (poller k) = NeverReturns"
  shows "guarded_update w name poller = (Inl DeviceTimeoutError, w) \<and>
         status_update_loop w ((name, mac, poller) # rest) =
           yield
             (fst (avail_offline
                (log_line (time_out_during_update_line name mac)
                   (log_line (updating_device_line name mac) w)) name))
             (status_update_loop
                (snd (avail_offline
                   (log_line (time_out_during_update_line name mac)
                      (log_line (updating_device_line name mac) w)) name
                   :: 'v mqtt_message list \<times> worker))
                (rest :: 'v device list)) \<and>
         time_out_during_update_line name mac \<noteq> error_during_update_line name mac"
proof -
  have g: "guarded_update s name poller = (Inl DeviceTimeoutError, s)"
    if "update_retries s = update_retries w" for s
    using guarded_update_after_retries[of k poller s name NeverReturns] assms that
    by (simp add: update_device_state_eq timeout_def)
  have "guarded_update (log_line (updating_device_line name mac) w) name poller =
          (Inl DeviceTimeoutError, log_line (updating_device_line name mac) w)"
    by (rule g) (simp add: log_line_def)
  then have "status_update_loop w ((name, mac, poller) # rest) =
           yield
             (fst (avail_offline
                (log_line (time_out_during_update_line name mac)
                   (log_line (updating_device_line name mac) w)) name))
             (status_update_loop
                (snd (avail_offline
                   (log_line (time_out_during_update_line name mac)
                      (log_line (updating_device_line name mac) w)) name
                   :: 'v mqtt_message list \<times> worker))
                rest)"
    by (simp add: split_beta)
  moreover have "time_out_during_update_line name mac \<noteq> error_during_update_line name mac"
    by (simp add: time_out_during_update_line_def error_during_update_line_def)
  ultimately show ?thesis using g[of w] by simp
qed

text \<open>
  The theorem at a device whose first attempt fails with the transport error and whose
  second attempt does not return, with three retries allowed.
\<close>

theorem timeout_takes_precedence_witness:
  "guarded_update (MifloraWorker 3 3) ''D1'' (after_failures 1 times_out) =
     (Inl DeviceTimeoutError, MifloraWorker 3 3) \<and>
   fst (status_update_loop (MifloraWorker 3 3)
          [(''D1'', ''C4:7C:8D:6A:3E:7B'', after_failures 1 times_out)]) = ([[]], None) \<and>
   logged (snd (status_update_loop (MifloraWorker 3 3)
          [(''D1'', ''C4:7C:8D:6A:3E:7B'', after_failures 1 times_out)])) =
     [updating_device_line ''D1'' ''C4:7C:8D:6A:3E:7B'',
      time_out_during_update_line ''D1'' ''C4:7C:8D:6A:3E:7B'',
      error_count_line ''D1'' 1]"
  using timeout_takes_precedence
    [of 1 "after_failures 1 times_out" "MifloraWorker 3 3" "''D1''" "''C4:7C:8D:6A:3E:7B''" "[]"]
  by (simp add: after_failures_def read_data_backend_fails read_data_times_out
      yield_def avail_offline_eq log_line_def MifloraWorker_def)

subsection \<open>Discovery messages\<close>

text \<open>
  Claim C10. For every device name and address, \<open>config_device\<close> returns six messages:
  five sensor messages, one per monitored parameter in the order of \<open>monitoredAttrs\<close>,
  and one binary-sensor message for the low-battery indicator, each under the discovery
  topic of the address, the device name and the parameter. Each payload has exactly one
  \<open>unique_id\<close>, the discovery identifier built from the address, the device name and the
  tag of the parameter (the parameter name; \<open>illuminance\<close> for \<open>light\<close>), and the six
  identifiers are pairwise different.
\<close>

theorem config_device_messages:
  "length (config_device name mac) = 6 \<and>
   map component (config_device name mac) =
     [SENSOR, SENSOR, SENSOR, SENSOR, SENSOR, BINARY_SENSOR] \<and>
   map config_topic (config_device name mac) =
     map (\<lambda>attr. format_discovery_topic mac [name, attr]) (monitoredAttrs @ [ATTR_LOW_BATTERY]) \<and>
   map (\<lambda>m. map_of (config_payload m) ''unique_id'') (config_device name mac) =
     map (\<lambda>attr. Some (PFmt (format_discovery_id mac [name, unique_id_tag attr])))
       (monitoredAttrs @ [ATTR_LOW_BATTERY]) \<and>
   distinct (map (\<lambda>m. map_of (config_payload m) ''unique_id'') (config_device name mac)) \<and>
   list_all (\<lambda>m. distinct (map fst (config_payload m))) (config_device name mac)"
  by (simp add: config_device_def monitoredAttrs_def ATTR_BATTERY_def ATTR_LOW_BATTERY_def
      dict_update_def unique_id_tag_def Let_def)

end
